theory Spec2Isabelle
  imports Complex_Main "HOL-Library.Word"
begin

section \<open>JavaScript strings\<close>

text \<open>
  A JavaScript string is a sequence of UTF-16 code units. String literals of the
  source that are plain ASCII are written with \<open>lit\<close>; the Japanese literals of
  \<^verbatim>\<open>src/app/page.tsx\<close> are written as their code units.
\<close>

type_synonym jschar = "16 word"
type_synonym jsstring = "jschar list"

definition lit :: "string \<Rightarrow> jsstring" where
  "lit s = map of_char s"

text \<open>
  \<^verbatim>\<open>String.prototype.trim\<close> strips the code units of the ECMAScript productions
  WhiteSpace and LineTerminator from both ends.
\<close>

definition isWhiteSpace :: "jschar \<Rightarrow> bool" where
  "isWhiteSpace c =
     (c = 0x09 \<or> c = 0x0A \<or> c = 0x0B \<or> c = 0x0C \<or> c = 0x0D \<or> c = 0x20 \<or>
      c = 0xA0 \<or> c = 0x1680 \<or> (0x2000 \<le> c \<and> c \<le> 0x200A) \<or>
      c = 0x2028 \<or> c = 0x2029 \<or> c = 0x202F \<or> c = 0x205F \<or> c = 0x3000 \<or>
      c = 0xFEFF)"

definition trim :: "jsstring \<Rightarrow> jsstring" where
  "trim s = rev (dropWhile isWhiteSpace (rev (dropWhile isWhiteSpace s)))"

text \<open>
  Matching under the \<^verbatim>\<open>i\<close> flag (without \<^verbatim>\<open>u\<close>) compares canonicalised code
  units; against an ASCII pattern this is equality up to the case of the ASCII
  letters, since a code unit above 127 is never canonicalised into ASCII.
\<close>

definition toUpperAscii :: "jschar \<Rightarrow> jschar" where
  "toUpperAscii c = (if 0x61 \<le> c \<and> c \<le> 0x7A then c - 0x20 else c)"

fun startsWithCI :: "jsstring \<Rightarrow> jsstring \<Rightarrow> bool" where
  "startsWithCI [] s = True"
| "startsWithCI (p # ps) [] = False"
| "startsWithCI (p # ps) (c # cs) =
     (toUpperAscii p = toUpperAscii c \<and> startsWithCI ps cs)"

text \<open>The test \<^verbatim>\<open>/^https?:\/\//i.test(v)\<close>.\<close>

definition testScheme :: "jsstring \<Rightarrow> bool" where
  "testScheme v =
     (startsWithCI (lit ''http://'') v \<or> startsWithCI (lit ''https://'') v)"

text \<open>
  \<^verbatim>\<open>String.prototype.includes\<close>: the search string occurs as a contiguous run.
\<close>

fun includes_str :: "jsstring \<Rightarrow> jsstring \<Rightarrow> bool" where
  "includes_str [] t = (t = [])"
| "includes_str (c # cs) t = (take (length t) (c # cs) = t \<or> includes_str cs t)"

text \<open>Decimal rendering of a non-negative integer, as a template literal prints it.\<close>

function showDec :: "nat \<Rightarrow> jsstring" where
  "showDec n =
     (if n < 10 then [0x30 + of_nat n]
      else showDec (n div 10) @ [0x30 + of_nat (n mod 10)])"
  by pat_completeness auto
termination
  by (relation "measure (\<lambda>n. n)") auto

text \<open>
  \<^verbatim>\<open>text.split(/\r?\n|,|\t| +/g)\<close>: the text is cut at every line feed (with the
  carriage return before it, if any), comma, tab and maximal run of spaces; the pieces
  between the cuts are returned, empty ones included. The first argument collects the
  current piece in reverse.
\<close>

function splitSep :: "jsstring \<Rightarrow> jsstring \<Rightarrow> jsstring list" where
  "splitSep cur [] = [rev cur]"
| "splitSep cur (c # cs) =
     (if c = 0x0D \<and> cs \<noteq> [] \<and> hd cs = 0x0A then rev cur # splitSep [] (tl cs)
      else if c = 0x0A \<or> c = 0x2C \<or> c = 0x09 then rev cur # splitSep [] cs
      else if c = 0x20 then rev cur # splitSep [] (dropWhile (\<lambda>d. d = 0x20) cs)
      else splitSep (c # cur) cs)"
  by pat_completeness auto
termination
  by (relation "measure (\<lambda>(cur, s). length s)")
     (auto simp: length_dropWhile_le le_imp_less_Suc)

definition split :: "jsstring \<Rightarrow> jsstring list" where
  "split text = splitSep [] text"

text \<open>The test \<^verbatim>\<open>/\r?\n|,|\t| +/.test(t)\<close> of the paste handler.\<close>

definition testSeparator :: "jsstring \<Rightarrow> bool" where
  "testSeparator t = list_ex (\<lambda>c. c = 0x0A \<or> c = 0x2C \<or> c = 0x09 \<or> c = 0x20) t"

section \<open>Decoded JSON values\<close>

text \<open>
  A JavaScript number that is not NaN. \<^verbatim>\<open>JSON.parse\<close> produces finite numbers only;
  \<^verbatim>\<open>Number(string)\<close> can also produce the infinities.
\<close>

datatype jsnum = Finite real | PosInfinity | NegInfinity

datatype json =
    JNull
  | JBool bool
  | JNum jsnum
  | JStr jsstring
  | JArr "json list"
  | JObj "(jsstring \<times> json) list"

text \<open>
  Reading a property \<^verbatim>\<open>obj[key]\<close>; \<open>None\<close> is \<^verbatim>\<open>undefined\<close>. An object
  decoded from JSON has one binding for each of its keys. The source reads the keys
  \<^verbatim>\<open>message\<close>, \<^verbatim>\<open>details\<close>, \<^verbatim>\<open>status\<close>, \<^verbatim>\<open>body\<close>, \<^verbatim>\<open>app\<close>,
  \<^verbatim>\<open>created_at\<close> and \<^verbatim>\<open>urls\<close> only, none of which an array has.
\<close>

fun getProp :: "json \<Rightarrow> jsstring \<Rightarrow> json option" where
  "getProp (JObj kvs) k = map_of kvs k"
| "getProp _ k = None"

fun joinWith :: "jsstring \<Rightarrow> jsstring list \<Rightarrow> jsstring" where
  "joinWith sep [] = []"
| "joinWith sep [x] = x"
| "joinWith sep (x # y # ys) = x @ sep @ joinWith sep (y # ys)"

text \<open>
  An exception thrown by the platform. The only one the modelled code can meet is the
  TypeError of a conversion to a primitive value.
\<close>

datatype exn = TypeError

text \<open>
  \<^verbatim>\<open>String(v)\<close> on a decoded JSON value; \<open>Inl\<close> is a thrown exception. The
  rendering of a number is a parameter (\<^verbatim>\<open>Number.prototype.toString\<close> of the
  platform). A decoded object has \<^verbatim>\<open>Object.prototype\<close> as its prototype: without an
  own key \<^verbatim>\<open>toString\<close> the inherited method gives \<open>[object Object]\<close>; with one, the
  own value is not callable (no JSON value is), \<^verbatim>\<open>valueOf\<close> gives no primitive
  either, and the conversion throws a TypeError. An array is the join of its elements
  with commas (\<open>joinElems\<close> converts them from left to right), \<^verbatim>\<open>null\<close> elements
  giving the empty string.
\<close>

fun jsString :: "(jsnum \<Rightarrow> jsstring) \<Rightarrow> json \<Rightarrow> exn + jsstring"
  and joinElems :: "(jsnum \<Rightarrow> jsstring) \<Rightarrow> json list \<Rightarrow> exn + jsstring list" where
  "jsString numStr JNull = Inr (lit ''null'')"
| "jsString numStr (JBool b) = Inr (if b then lit ''true'' else lit ''false'')"
| "jsString numStr (JNum n) = Inr (numStr n)"
| "jsString numStr (JStr s) = Inr s"
| "jsString numStr (JArr xs) =
     (case joinElems numStr xs of
        Inl e \<Rightarrow> Inl e
      | Inr ss \<Rightarrow> Inr (joinWith (lit '','') ss))"
| "jsString numStr (JObj kvs) =
     (if map_of kvs (lit ''toString'') \<noteq> None then Inl TypeError
      else Inr (lit ''[object Object]''))"
| "joinElems numStr [] = Inr []"
| "joinElems numStr (v # vs) =
     (case (if v = JNull then Inr [] else jsString numStr v) of
        Inl e \<Rightarrow> Inl e
      | Inr s \<Rightarrow>
          (case joinElems numStr vs of
             Inl e \<Rightarrow> Inl e
           | Inr ss \<Rightarrow> Inr (s # ss)))"

text \<open>
  \<^verbatim>\<open>value.map((v) => String(v))\<close>: the elements are converted from left to right, and
  the first exception ends the call.
\<close>

fun mapString :: "(jsnum \<Rightarrow> jsstring) \<Rightarrow> json list \<Rightarrow> exn + jsstring list" where
  "mapString numStr [] = Inr []"
| "mapString numStr (v # vs) =
     (case jsString numStr v of
        Inl e \<Rightarrow> Inl e
      | Inr s \<Rightarrow>
          (case mapString numStr vs of
             Inl e \<Rightarrow> Inl e
           | Inr ss \<Rightarrow> Inr (s # ss)))"

section \<open>The input collector: \<^verbatim>\<open>src/app/page.tsx\<close>\<close>

subsection \<open>Normalisation\<close>

definition normalizeUrl :: "jsstring \<Rightarrow> jsstring" where
  "normalizeUrl input =
     (let v = trim input in
      if v = [] then []
      else if \<not> testScheme v then lit ''https://'' @ v
      else v)"

subsection \<open>The lenient response parser\<close>

fun asObject :: "json \<Rightarrow> json" where
  "asObject (JObj kvs) = JObj kvs"
| "asObject (JArr xs) = JArr xs"
| "asObject _ = JObj []"

fun getString :: "json option \<Rightarrow> jsstring option" where
  "getString (Some (JStr s)) = Some s"
| "getString _ = None"

text \<open>
  \<^verbatim>\<open>getStringArray\<close>: \<open>Inr None\<close> is \<^verbatim>\<open>undefined\<close>, \<open>Inl\<close> an exception thrown by
  \<^verbatim>\<open>String\<close>.
\<close>

fun getStringArray ::
  "(jsnum \<Rightarrow> jsstring) \<Rightarrow> json option \<Rightarrow> exn + jsstring list option" where
  "getStringArray numStr (Some (JArr xs)) =
     (case mapString numStr xs of Inl e \<Rightarrow> Inl e | Inr ss \<Rightarrow> Inr (Some ss))"
| "getStringArray numStr _ = Inr None"

text \<open>
  \<^verbatim>\<open>getNumber\<close>; \<open>toNumber\<close> is \<^verbatim>\<open>Number(string)\<close> of the platform, \<open>None\<close>
  when the result is NaN.
\<close>

fun getNumber :: "(jsstring \<Rightarrow> jsnum option) \<Rightarrow> json option \<Rightarrow> jsnum option" where
  "getNumber toNumber (Some (JNum n)) = Some n"
| "getNumber toNumber (Some (JStr s)) = (if trim s \<noteq> [] then toNumber s else None)"
| "getNumber toNumber _ = None"

record ApiOk =
  message :: jsstring
  status :: "jsnum option"
  body :: "json option"

record ApiNg = ApiOk +
  details :: "jsstring list option"

record Parsed =
  ok :: "ApiOk option"
  ng :: "ApiNg option"

text \<open>
  \<^verbatim>\<open>parseApi\<close>; it throws when \<^verbatim>\<open>getStringArray\<close> does.
\<close>

definition parseApi ::
  "(jsnum \<Rightarrow> jsstring) \<Rightarrow> (jsstring \<Rightarrow> jsnum option) \<Rightarrow> json \<Rightarrow> exn + Parsed" where
  "parseApi numStr toNumber v =
     (let obj = asObject v;
          msg = getString (getProp obj (lit ''message''))
      in case getStringArray numStr (getProp obj (lit ''details'')) of
           Inl e \<Rightarrow> Inl e
         | Inr dts \<Rightarrow>
             let st = getNumber toNumber (getProp obj (lit ''status''));
                 bd = getProp obj (lit ''body'');
                 m = (case msg of Some s \<Rightarrow> s | None \<Rightarrow> lit ''response'')
             in case dts of
                  Some (d # ds) \<Rightarrow>
                    Inr \<lparr>ok = None,
                         ng = Some \<lparr>message = m, status = st, body = bd,
                                    details = Some (d # ds)\<rparr>\<rparr>
                | _ \<Rightarrow> Inr \<lparr>ok = Some \<lparr>message = m, status = st, body = bd\<rparr>, ng = None\<rparr>)"

subsection \<open>The Entry list and its operations\<close>

record Row =
  id_row :: jsstring
  url :: jsstring

text \<open>
  \<^verbatim>\<open>uid()\<close> draws from \<^verbatim>\<open>Math.random\<close>; the identifiers it returns are inputs
  of the model. The initial state of \<^verbatim>\<open>useState\<close> is one empty Row.
\<close>

definition initialRows :: "jsstring \<Rightarrow> Row list" where
  "initialRows i = [\<lparr>id_row = i, url = []\<rparr>]"

definition addRow :: "jsstring \<Rightarrow> Row list \<Rightarrow> Row list" where
  "addRow i p = p @ [\<lparr>id_row = i, url = []\<rparr>]"

definition removeRow :: "jsstring \<Rightarrow> Row list \<Rightarrow> Row list" where
  "removeRow i p = (if length p = 1 then p else filter (\<lambda>r. id_row r \<noteq> i) p)"

definition setUrl :: "jsstring \<Rightarrow> jsstring \<Rightarrow> Row list \<Rightarrow> Row list" where
  "setUrl i u p = map (\<lambda>r. if id_row r = i then r\<lparr>url := u\<rparr> else r) p"

text \<open>
  \<^verbatim>\<open>clearAll\<close>, the CLEAR button of the later revision of the page
  (\<^verbatim>\<open>src/unnamed/part_000\<close>): one fresh empty Row, and no result.
\<close>

definition clearAll :: "jsstring \<Rightarrow> Row list" where
  "clearAll i = [\<lparr>id_row = i, url = []\<rparr>]"

definition pasteParts :: "jsstring \<Rightarrow> jsstring list" where
  "pasteParts text = filter (\<lambda>s. s \<noteq> []) (map trim (split text))"

text \<open>
  \<^verbatim>\<open>pasteMany\<close>. \<open>uid k\<close> is the identifier drawn for the \<open>k\<close>-th appended Row.
  The first part goes to the last Row of the list. On an empty list the assignment
  \<^verbatim>\<open>next[next.length - 1] = ...\<close> sets the property \<^verbatim>\<open>-1\<close>, which is no element of
  the array.
\<close>

definition pasteMany :: "(nat \<Rightarrow> jsstring) \<Rightarrow> jsstring \<Rightarrow> Row list \<Rightarrow> Row list" where
  "pasteMany uid text prev =
     (case pasteParts text of
        first # u # rest \<Rightarrow>
          (if prev = [] then [] else butlast prev @ [(last prev)\<lparr>url := first\<rparr>]) @
          map (\<lambda>(k, v). \<lparr>id_row = uid k, url = v\<rparr>) (enumerate 0 (u # rest))
      | _ \<Rightarrow> prev)"

text \<open>
  The \<^verbatim>\<open>onPaste\<close> handler of a Row's input field. The first component tells whether
  \<^verbatim>\<open>preventDefault\<close> was called, that is, whether the browser's own paste into the
  field is suppressed.
\<close>

definition onPaste :: "(nat \<Rightarrow> jsstring) \<Rightarrow> jsstring \<Rightarrow> Row list \<Rightarrow> bool \<times> Row list" where
  "onPaste uid t rows =
     (if testSeparator t then (True, pasteMany uid t rows) else (False, rows))"

subsection \<open>Derived URL sequences\<close>

definition urls :: "Row list \<Rightarrow> jsstring list" where
  "urls rows = filter (\<lambda>u. u \<noteq> []) (map (\<lambda>r. normalizeUrl (url r)) rows)"

text \<open>
  \<^verbatim>\<open>Array.from(new Set(xs))\<close>: a Set keeps its elements in insertion order, and
  adding an element it already has changes nothing.
\<close>

definition setAdd :: "'a list \<Rightarrow> 'a \<Rightarrow> 'a list" where
  "setAdd acc x = (if x \<in> set acc then acc else acc @ [x])"

definition arrayFromSet :: "'a list \<Rightarrow> 'a list" where
  "arrayFromSet xs = foldl setAdd [] xs"

definition uniqueUrls :: "Row list \<Rightarrow> jsstring list" where
  "uniqueUrls rows = arrayFromSet (urls rows)"

subsection \<open>Validation and submission\<close>

text \<open>
  \<^verbatim>\<open>new URL(u)\<close> is the platform's parser; \<open>URL u\<close> is \<open>None\<close> when it throws.
\<close>

definition isValidUrl :: "(jsstring \<Rightarrow> 'u option) \<Rightarrow> jsstring \<Rightarrow> bool" where
  "isValidUrl URL u = (case URL u of Some _ \<Rightarrow> True | None \<Rightarrow> False)"

definition msgNoUrl :: jsstring where
  "msgNoUrl = lit ''URL'' @ [0x304C] @ lit ''0'' @ [0x4EF6, 0x3002, 0x6700, 0x4F4E] @
     lit ''1'' @ [0x4EF6, 0x5165, 0x308C, 0x308D, 0x3002]"

definition msgInvalid :: "nat \<Rightarrow> jsstring \<Rightarrow> jsstring" where
  "msgInvalid idx u = lit ''('' @ showDec (idx + 1) @ lit '') URL'' @
     [0x5F62, 0x5F0F, 0x304C, 0x58CA, 0x308C, 0x3066, 0x308B] @ lit '': '' @ u"

definition msgDuplicates :: jsstring where
  "msgDuplicates = [0x91CD, 0x8907] @ lit ''URL'' @
     [0x304C, 0x6DF7, 0x3056, 0x3063, 0x3066, 0x308B, 0x3002, 0x9001, 0x4FE1, 0x306F,
      0x81EA, 0x52D5, 0x3067, 0x30E6, 0x30CB, 0x30FC, 0x30AF, 0x5316, 0x3059, 0x308B,
      0x3002]"

text \<open>The two words that \<^verbatim>\<open>onSubmit\<close> looks for in a message to call it fatal.\<close>

definition wordBroken :: jsstring where
  "wordBroken = [0x58CA, 0x308C, 0x3066, 0x308B]"

definition wordZero :: jsstring where
  "wordZero = lit ''0'' @ [0x4EF6]"

definition msgRejected :: jsstring where
  "msgRejected = [0x5165, 0x529B, 0x304C, 0x96D1, 0x3002, 0x76F4, 0x305B, 0x3002]"

definition msgSendFailed :: jsstring where
  "msgSendFailed = [0x9001, 0x4FE1, 0x5931, 0x6557]"

definition msgSent :: jsstring where
  "msgSent = lit ''n8n'' @
     [0x306B, 0x6295, 0x3052, 0x305F, 0x3002, 0x6B21, 0x306F, 0x30EF, 0x30FC, 0x30AF,
      0x30D5, 0x30ED, 0x30FC, 0x5074, 0x3067, 0x4F1A, 0x793E, 0x60C5, 0x5831, 0x62BD,
      0x51FA, 0x3060, 0x3002]"

definition msgNetworkDead :: jsstring where
  "msgNetworkDead = [0x901A, 0x4FE1, 0x304C, 0x6B7B, 0x3093, 0x3060]"

definition validate :: "(jsstring \<Rightarrow> 'u option) \<Rightarrow> Row list \<Rightarrow> jsstring list" where
  "validate URL rows =
     (if length (uniqueUrls rows) = 0 then [msgNoUrl] else []) @
     concat (map (\<lambda>(idx, u). if \<not> isValidUrl URL u then [msgInvalid idx u] else [])
                 (enumerate 0 (uniqueUrls rows))) @
     (if length (urls rows) \<noteq> length (uniqueUrls rows) then [msgDuplicates] else [])"

datatype ResultState =
    ResultOk jsstring "ApiOk option"
  | ResultNg jsstring "jsstring list option" "ApiNg option"

record Submission =
  sub_app :: jsstring
  sub_urls :: "jsstring list"
  sub_created_at :: jsstring

text \<open>
  What \<^verbatim>\<open>fetch("/api/submit", ...)\<close> and the reading of its response come to: the
  call throws, or it gives \<^verbatim>\<open>res.ok\<close> and the decoded body (\<open>None\<close> when
  \<^verbatim>\<open>res.json()\<close> rejects).
\<close>

datatype FetchOutcome =
    FetchThrows jsstring
  | FetchResponse bool "json option"

text \<open>
  The outcome of \<^verbatim>\<open>onSubmit\<close>: the result shown, and the requests sent to the relay.
\<close>

record SubmitOutcome =
  result :: "ResultState option"
  requests :: "Submission list"

text \<open>
  \<^verbatim>\<open>onSubmit\<close>. \<open>typeErrorMessage\<close> is the \<^verbatim>\<open>message\<close> the platform gives to the
  TypeError of a failed conversion; the \<^verbatim>\<open>catch\<close> clause shows it when
  \<^verbatim>\<open>parseApi\<close> throws, as it shows the text of a failed \<^verbatim>\<open>fetch\<close>.
\<close>

definition onSubmit ::
  "(jsstring \<Rightarrow> 'u option) \<Rightarrow> (jsnum \<Rightarrow> jsstring) \<Rightarrow> (jsstring \<Rightarrow> jsnum option) \<Rightarrow>
   jsstring \<Rightarrow> jsstring \<Rightarrow> (Submission \<Rightarrow> FetchOutcome) \<Rightarrow> Row list \<Rightarrow> SubmitOutcome" where
  "onSubmit URL numStr toNumber typeErrorMessage now fetch rows =
     (let errors = validate URL rows;
          fatal = filter (\<lambda>e. includes_str e wordBroken \<or> includes_str e wordZero) errors
      in if fatal \<noteq> [] then
           \<lparr>result = Some (ResultNg msgRejected (Some errors) None), requests = []\<rparr>
         else
           let payload = \<lparr>sub_app = lit ''Next Asia Link'', sub_urls = uniqueUrls rows,
                          sub_created_at = now\<rparr>
           in case fetch payload of
                FetchThrows msg \<Rightarrow>
                  \<lparr>result = Some (ResultNg msgNetworkDead (Some [msg]) None),
                   requests = [payload]\<rparr>
              | FetchResponse res_ok decoded \<Rightarrow>
                  let raw = (case decoded of Some v \<Rightarrow> v | None \<Rightarrow> JObj [])
                  in case parseApi numStr toNumber raw of
                       Inl TypeError \<Rightarrow>
                         \<lparr>result = Some (ResultNg msgNetworkDead
                                           (Some [typeErrorMessage]) None),
                          requests = [payload]\<rparr>
                     | Inr parsed \<Rightarrow>
                         if \<not> res_ok then
                           \<lparr>result = Some (ResultNg
                              (case ng parsed of
                                 Some n \<Rightarrow> message n | None \<Rightarrow> msgSendFailed)
                              (Some (case ng parsed of
                                       Some n \<Rightarrow>
                                         (case details n of Some d \<Rightarrow> d | None \<Rightarrow> [])
                                     | None \<Rightarrow> []))
                              (ng parsed)),
                            requests = [payload]\<rparr>
                         else
                           \<lparr>result = Some (ResultOk msgSent
                              (Some (case ok parsed of
                                       Some k \<Rightarrow> k
                                     | None \<Rightarrow> \<lparr>message = lit ''forwarded'',
                                                 status = None, body = None\<rparr>))),
                            requests = [payload]\<rparr>)"

section \<open>The relay endpoint: the route handler \<^verbatim>\<open>POST\<close>\<close>

text \<open>
  The handler follows the page in \<^verbatim>\<open>src/app/page.tsx\<close> (from line 376). Its
  \<^verbatim>\<open>asObject\<close> is the page's; \<^verbatim>\<open>asString\<close> and \<^verbatim>\<open>asStringArray\<close> are
  the page's \<^verbatim>\<open>getString\<close> and \<^verbatim>\<open>getStringArray\<close> under other names.
\<close>

fun asString :: "json option \<Rightarrow> jsstring option" where
  "asString (Some (JStr s)) = Some s"
| "asString _ = None"

fun asStringArray ::
  "(jsnum \<Rightarrow> jsstring) \<Rightarrow> json option \<Rightarrow> exn + jsstring list option" where
  "asStringArray numStr (Some (JArr xs)) =
     (case mapString numStr xs of Inl e \<Rightarrow> Inl e | Inr ss \<Rightarrow> Inr (Some ss))"
| "asStringArray numStr _ = Inr None"

text \<open>
  \<^verbatim>\<open>safeJsonParse\<close>; \<open>jsonParse\<close> is the platform's \<^verbatim>\<open>JSON.parse\<close>, \<open>None\<close>
  when it throws.
\<close>

definition safeJsonParse :: "(jsstring \<Rightarrow> json option) \<Rightarrow> jsstring \<Rightarrow> json" where
  "safeJsonParse jsonParse text =
     (case jsonParse text of Some v \<Rightarrow> v | None \<Rightarrow> JStr text)"

text \<open>
  The inbound request: the outcome of \<^verbatim>\<open>req.json()\<close> (\<open>None\<close> when it throws) and
  the two headers the handler reads (\<open>None\<close> when absent).
\<close>

record Request =
  req_json :: "json option"
  req_user_agent :: "jsstring option"
  req_forwarded_for :: "jsstring option"

record Meta =
  created_at :: jsstring
  user_agent :: jsstring
  ip_hint :: jsstring

record Payload =
  app :: jsstring
  urls_payload :: "jsstring list"
  meta :: Meta

text \<open>
  What the outbound \<^verbatim>\<open>fetch(webhook, ...)\<close> and \<^verbatim>\<open>res.text()\<close> come to: an
  exception, or the downstream status and the raw response text.
\<close>

datatype WebhookOutcome =
    WebhookThrows jsstring
  | WebhookResponse nat jsstring

text \<open>\<^verbatim>\<open>res.ok\<close>: the status is in the range 200 to 299.\<close>

definition res_ok :: "nat \<Rightarrow> bool" where
  "res_ok st = (200 \<le> st \<and> st \<le> 299)"

text \<open>
  The handler's answer, \<^verbatim>\<open>NextResponse.json(value, {status})\<close>, and the outbound
  calls it made: the destination and the payload of each.
\<close>

record RelayResponse =
  http_status :: nat
  json_body :: json

record RelayOutcome =
  response :: RelayResponse
  outbound :: "(jsstring \<times> Payload) list"

definition msgNoWebhook :: jsstring where
  "msgNoWebhook = lit ''N8N_WEBHOOK_URL '' @ [0x304C, 0x672A, 0x8A2D, 0x5B9A, 0xFF08] @
     lit ''Vercel'' @
     [0x306E, 0x74B0, 0x5883, 0x5909, 0x6570, 0x306B, 0x5165, 0x308C, 0x308D, 0xFF09]"

definition msgBrokenJson :: jsstring where
  "msgBrokenJson = lit ''JSON'' @ [0x304C, 0x58CA, 0x308C, 0x3066, 0x308B]"

definition msgUrlsEmpty :: jsstring where
  "msgUrlsEmpty = lit ''urls '' @ [0x304C, 0x7A7A]"

definition msgWebhookError :: jsstring where
  "msgWebhookError = lit ''n8n '' @ [0x304C, 0x30A8, 0x30E9, 0x30FC, 0x8FD4, 0x3057, 0x305F]"

definition msgWebhookException :: jsstring where
  "msgWebhookException = lit ''Webhook'' @ [0x8EE2, 0x9001, 0x3067, 0x4F8B, 0x5916]"

text \<open>
  The payload the handler builds from the decoded body, the headers and the coerced
  \<^verbatim>\<open>urls\<close>.
\<close>

definition relayPayload :: "jsstring \<Rightarrow> Request \<Rightarrow> json \<Rightarrow> jsstring list \<Rightarrow> Payload" where
  "relayPayload now req b us =
     (let obj = asObject b in
      \<lparr>app = (case asString (getProp obj (lit ''app'')) of
                Some s \<Rightarrow> s | None \<Rightarrow> lit ''Next Asia Link''),
       urls_payload = us,
       meta = \<lparr>created_at = (case asString (getProp obj (lit ''created_at'')) of
                               Some s \<Rightarrow> s | None \<Rightarrow> now),
               user_agent = (case req_user_agent req of Some s \<Rightarrow> s | None \<Rightarrow> []),
               ip_hint = (case req_forwarded_for req of Some s \<Rightarrow> s | None \<Rightarrow> [])\<rparr>\<rparr>)"

text \<open>
  \<^verbatim>\<open>POST\<close>. \<open>webhook\<close> is \<^verbatim>\<open>process.env.N8N_WEBHOOK_URL\<close> (\<open>None\<close> when unset;
  the empty string is falsy too), \<open>now\<close> the timestamp \<^verbatim>\<open>new Date().toISOString()\<close>.
  \<^verbatim>\<open>asStringArray\<close> is called before the \<^verbatim>\<open>try\<close> block: when it throws, the handler
  throws (\<open>Inl\<close>), having built no response and made no outbound call.
\<close>

definition POST ::
  "jsstring option \<Rightarrow> (jsstring \<Rightarrow> json option) \<Rightarrow> (jsnum \<Rightarrow> jsstring) \<Rightarrow> jsstring \<Rightarrow>
   (jsstring \<Rightarrow> Payload \<Rightarrow> WebhookOutcome) \<Rightarrow> Request \<Rightarrow> exn + RelayOutcome" where
  "POST webhook jsonParse numStr now fetch req =
     (case (if webhook = Some [] then None else webhook) of
        None \<Rightarrow>
          Inr \<lparr>response = \<lparr>http_status = 500,
                            json_body = JObj [(lit ''message'', JStr msgNoWebhook)]\<rparr>,
               outbound = []\<rparr>
      | Some w \<Rightarrow>
          (case req_json req of
             None \<Rightarrow>
               Inr \<lparr>response = \<lparr>http_status = 400,
                                 json_body = JObj [(lit ''message'', JStr msgBrokenJson)]\<rparr>,
                    outbound = []\<rparr>
           | Some b \<Rightarrow>
               (case asStringArray numStr (getProp (asObject b) (lit ''urls'')) of
                  Inl e \<Rightarrow> Inl e
                | Inr arr \<Rightarrow>
                    let us = (case arr of Some xs \<Rightarrow> xs | None \<Rightarrow> []) in
                    if us = [] then
                      Inr \<lparr>response = \<lparr>http_status = 400,
                             json_body = JObj [(lit ''message'', JStr msgUrlsEmpty)]\<rparr>,
                           outbound = []\<rparr>
                    else
                      let payload = relayPayload now req b us in
                      (case fetch w payload of
                         WebhookThrows msg \<Rightarrow>
                           Inr \<lparr>response = \<lparr>http_status = 502,
                                  json_body = JObj [(lit ''message'', JStr msgWebhookException),
                                                    (lit ''details'', JArr [JStr msg])]\<rparr>,
                                outbound = [(w, payload)]\<rparr>
                       | WebhookResponse st text \<Rightarrow>
                           let parsed = safeJsonParse jsonParse text in
                           if \<not> res_ok st then
                             Inr \<lparr>response = \<lparr>http_status = 502,
                                    json_body = JObj [(lit ''message'', JStr msgWebhookError),
                                                      (lit ''status'', JNum (Finite (real st))),
                                                      (lit ''body'', parsed)]\<rparr>,
                                  outbound = [(w, payload)]\<rparr>
                           else
                             Inr \<lparr>response = \<lparr>http_status = 200,
                                    json_body = JObj [(lit ''message'', JStr (lit ''forwarded'')),
                                                      (lit ''status'', JNum (Finite (real st))),
                                                      (lit ''body'', parsed)]\<rparr>,
                                  outbound = [(w, payload)]\<rparr>))))"

section \<open>Properties of trimming and of the scheme test\<close>

lemma trim_Nil: "trim [] = []"
  by (simp add: trim_def)

lemma dropWhile_rev_fixed:
  assumes "s \<noteq> []" and "\<not> P (last s)"
  shows "dropWhile P (rev s) = rev s"
  using assms by (cases s rule: rev_cases) simp_all

lemma trim_fixed:
  assumes "s \<noteq> []" and "\<not> isWhiteSpace (hd s)" and "\<not> isWhiteSpace (last s)"
  shows "trim s = s"
proof -
  from assms(1,2) have "dropWhile isWhiteSpace s = s"
    by (cases s) simp_all
  then show ?thesis
    using assms(1,3) by (simp add: trim_def dropWhile_rev_fixed)
qed

lemma trim_hd:
  assumes "trim s \<noteq> []"
  shows "\<not> isWhiteSpace (hd (trim s))"
proof -
  let ?d = "dropWhile isWhiteSpace s"
  have "?d = rev (dropWhile isWhiteSpace (rev ?d)) @ rev (takeWhile isWhiteSpace (rev ?d))"
    by (metis rev_append rev_rev_ident takeWhile_dropWhile_id)
  then have split: "?d = trim s @ rev (takeWhile isWhiteSpace (rev ?d))"
    by (simp only: trim_def)
  with assms have "hd ?d = hd (trim s)"
    by (metis hd_append2)
  moreover from split assms have "?d \<noteq> []"
    by (metis append_is_Nil_conv)
  then have "\<not> isWhiteSpace (hd ?d)" by (rule hd_dropWhile)
  ultimately show ?thesis by simp
qed

lemma trim_last:
  assumes "trim s \<noteq> []"
  shows "\<not> isWhiteSpace (last (trim s))"
proof -
  let ?e = "dropWhile isWhiteSpace (rev (dropWhile isWhiteSpace s))"
  from assms have e: "?e \<noteq> []" by (simp add: trim_def)
  have "last (trim s) = hd ?e" using e by (simp add: trim_def last_rev)
  then show ?thesis using e by (simp add: hd_dropWhile)
qed

lemma trim_trim: "trim (trim s) = trim s"
proof (cases "trim s = []")
  case True
  then show ?thesis by (simp add: trim_Nil)
next
  case False
  then show ?thesis by (intro trim_fixed trim_hd trim_last)
qed

lemma testScheme_https: "testScheme (lit ''https://'' @ v)"
  by (simp add: testScheme_def lit_def)

lemma trim_https:
  assumes "v \<noteq> []" and "\<not> isWhiteSpace (last v)"
  shows "trim (lit ''https://'' @ v) = lit ''https://'' @ v"
proof (rule trim_fixed)
  show "lit ''https://'' @ v \<noteq> []" using assms(1) by simp
  show "\<not> isWhiteSpace (hd (lit ''https://'' @ v))"
    by (simp add: lit_def isWhiteSpace_def)
  show "\<not> isWhiteSpace (last (lit ''https://'' @ v))"
    using assms by simp
qed

section \<open>Properties of the Set-based deduplication\<close>

lemma set_foldl_setAdd: "set (foldl setAdd acc xs) = set acc \<union> set xs"
  by (induction xs arbitrary: acc) (auto simp: setAdd_def)

lemma set_arrayFromSet: "set (arrayFromSet xs) = set xs"
  by (simp add: arrayFromSet_def set_foldl_setAdd)

lemma distinct_foldl_setAdd: "distinct acc \<Longrightarrow> distinct (foldl setAdd acc xs)"
  by (induction xs arbitrary: acc) (auto simp: setAdd_def)

lemma distinct_arrayFromSet: "distinct (arrayFromSet xs)"
  by (simp add: arrayFromSet_def distinct_foldl_setAdd)

lemma arrayFromSet_snoc: "arrayFromSet (xs @ [x]) = setAdd (arrayFromSet xs) x"
  by (simp add: arrayFromSet_def)

text \<open>
  The result is the input restricted to the positions where an element occurs for the
  first time, in the order of these positions.
\<close>

lemma arrayFromSet_first_occurrences:
  "arrayFromSet xs =
     map (\<lambda>i. xs ! i) (filter (\<lambda>i. xs ! i \<notin> set (take i xs)) [0..<length xs])"
proof (induction xs rule: rev_induct)
  case Nil
  show ?case by (simp add: arrayFromSet_def)
next
  case (snoc x xs)
  have old: "map (\<lambda>i. (xs @ [x]) ! i)
      (filter (\<lambda>i. (xs @ [x]) ! i \<notin> set (take i (xs @ [x]))) [0..<length xs])
    = map (\<lambda>i. xs ! i) (filter (\<lambda>i. xs ! i \<notin> set (take i xs)) [0..<length xs])"
  proof -
    have "filter (\<lambda>i. (xs @ [x]) ! i \<notin> set (take i (xs @ [x]))) [0..<length xs]
        = filter (\<lambda>i. xs ! i \<notin> set (take i xs)) [0..<length xs]"
      by (rule filter_cong) (auto simp: nth_append)
    moreover have "map (\<lambda>i. (xs @ [x]) ! i)
          (filter (\<lambda>i. xs ! i \<notin> set (take i xs)) [0..<length xs])
        = map (\<lambda>i. xs ! i) (filter (\<lambda>i. xs ! i \<notin> set (take i xs)) [0..<length xs])"
      by (rule map_cong) (auto simp: nth_append)
    ultimately show ?thesis by simp
  qed
  have new: "map (\<lambda>i. (xs @ [x]) ! i)
      (filter (\<lambda>i. (xs @ [x]) ! i \<notin> set (take i (xs @ [x]))) [length xs])
    = (if x \<in> set xs then [] else [x])"
    by simp
  have "map (\<lambda>i. (xs @ [x]) ! i)
      (filter (\<lambda>i. (xs @ [x]) ! i \<notin> set (take i (xs @ [x]))) [0..<length (xs @ [x])])
    = arrayFromSet xs @ (if x \<in> set xs then [] else [x])"
    unfolding snoc.IH old [symmetric] new [symmetric]
    by (simp only: length_append_singleton upt_Suc_append [OF le0] filter_append map_append)
  then show ?case
    by (simp add: arrayFromSet_snoc setAdd_def set_arrayFromSet)
qed

section \<open>Properties of the operations on the Entry list\<close>

lemma removeRow_single: "length p = 1 \<Longrightarrow> removeRow i p = p"
  by (simp add: removeRow_def)

lemma removeRow_nonempty:
  assumes "p \<noteq> []" and "distinct (map id_row p)"
  shows "removeRow i p \<noteq> []"
proof (cases p)
  case Nil
  with assms show ?thesis by simp
next
  case (Cons r rs)
  show ?thesis
  proof (cases rs)
    case Nil
    with Cons show ?thesis by (simp add: removeRow_def)
  next
    case (Cons r' rs')
    with \<open>p = r # rs\<close> assms(2) have "id_row r \<noteq> id_row r'" by auto
    then have "id_row r \<noteq> i \<or> id_row r' \<noteq> i" by auto
    then show ?thesis using Cons \<open>p = r # rs\<close>
      by (auto simp: removeRow_def)
  qed
qed

lemma removeRow_distinct:
  "distinct (map id_row p) \<Longrightarrow> distinct (map id_row (removeRow i p))"
  by (simp add: removeRow_def distinct_map_filter)

lemma map_id_row_setUrl: "map id_row (setUrl i u p) = map id_row p"
  by (induction p) (simp_all add: setUrl_def)

lemma pasteMany_nonempty: "p \<noteq> [] \<Longrightarrow> pasteMany uid t p \<noteq> []"
  by (simp add: pasteMany_def split: list.splits)

lemma map_id_row_fresh:
  "map id_row (map (\<lambda>(k, v). \<lparr>id_row = uid k, url = v\<rparr>) (enumerate n xs))
      = map uid [n..<n + length xs]"
proof -
  have "map id_row (map (\<lambda>(k, v). \<lparr>id_row = uid k, url = v\<rparr>) (enumerate n xs))
      = map uid (map fst (enumerate n xs))"
    by (simp add: case_prod_unfold comp_def del: map_fst_enumerate)
  then show ?thesis by (simp only: map_fst_enumerate)
qed

lemma map_id_row_last_url:
  "p \<noteq> [] \<Longrightarrow> map id_row (butlast p) @ [id_row (last p)] = map id_row p"
  by (cases p rule: rev_cases) simp_all

lemma map_id_row_pasteMany:
  "map id_row (pasteMany uid t p) =
     map id_row p @ map uid [0..<length (pasteParts t) - 1]"
proof (cases "pasteParts t")
  case Nil
  then show ?thesis by (simp add: pasteMany_def)
next
  case (Cons first more)
  show ?thesis
  proof (cases more)
    case Nil
    with Cons show ?thesis by (simp add: pasteMany_def)
  next
    case inner: (Cons u rest)
    have parts: "pasteMany uid t p =
        (if p = [] then [] else butlast p @ [(last p)\<lparr>url := first\<rparr>]) @
        map (\<lambda>(k, v). \<lparr>id_row = uid k, url = v\<rparr>) (enumerate 0 (u # rest))"
      using Cons inner by (simp add: pasteMany_def)
    have len: "length (pasteParts t) - 1 = length (u # rest)"
      using Cons inner by simp
    show ?thesis
      unfolding parts len map_append map_id_row_fresh
      by (cases "p = []") (simp_all add: map_id_row_last_url del: upt_Suc)
  qed
qed


lemma pasteParts_three:
  "pasteParts (lit ''x.com, y.com z.com'') = [lit ''x.com'', lit ''y.com'', lit ''z.com'']"
  by (simp add: pasteParts_def split_def trim_def isWhiteSpace_def lit_def)

section \<open>Properties of the coercion to strings\<close>

lemma mapString_length: "mapString numStr xs = Inr ss \<Longrightarrow> length ss = length xs"
  by (induction xs arbitrary: ss) (auto split: sum.splits)

lemma mapString_Nil_iff: "mapString numStr xs = Inr [] \<longleftrightarrow> xs = []"
  using mapString_length [of numStr xs "[]"] by (cases xs) auto

section \<open>Properties of the relay handler\<close>

lemma relay_urls_cases:
  "asStringArray numStr (getProp (asObject b) (lit ''urls'')) =
     (case b of
        JObj kvs \<Rightarrow>
          (case map_of kvs (lit ''urls'') of
             Some (JArr xs) \<Rightarrow>
               (case mapString numStr xs of Inl e \<Rightarrow> Inl e | Inr ss \<Rightarrow> Inr (Some ss))
           | _ \<Rightarrow> Inr None)
      | _ \<Rightarrow> Inr None)"
  by (cases b) (simp_all split: option.splits json.splits)

lemma relay_urls_lacking:
  assumes "\<not> (\<exists>kvs xs. b = JObj kvs \<and> map_of kvs (lit ''urls'') = Some (JArr xs) \<and> xs \<noteq> [])"
  shows "asStringArray numStr (getProp (asObject b) (lit ''urls'')) = Inr None \<or>
         asStringArray numStr (getProp (asObject b) (lit ''urls'')) = Inr (Some [])"
  using assms unfolding relay_urls_cases
  by (auto split: json.splits option.splits)



lemma POST_urls_empty:
  assumes "w \<noteq> []" and "req_json req = Some b"
    and "asStringArray numStr (getProp (asObject b) (lit ''urls'')) = Inr None \<or>
         asStringArray numStr (getProp (asObject b) (lit ''urls'')) = Inr (Some [])"
  shows "POST (Some w) jsonParse numStr now fetch req =
     Inr \<lparr>response = \<lparr>http_status = 400,
                       json_body = JObj [(lit ''message'', JStr msgUrlsEmpty)]\<rparr>,
          outbound = []\<rparr>"
  using assms by (auto simp: POST_def)


lemma POST_forwards:
  assumes "w \<noteq> []" and "req_json req = Some b"
    and "asStringArray numStr (getProp (asObject b) (lit ''urls'')) = Inr (Some us)"
    and "us \<noteq> []"
  shows "POST (Some w) jsonParse numStr now fetch req =
     (case fetch w (relayPayload now req b us) of
        WebhookThrows msg \<Rightarrow>
          Inr \<lparr>response = \<lparr>http_status = 502,
                 json_body = JObj [(lit ''message'', JStr msgWebhookException),
                                   (lit ''details'', JArr [JStr msg])]\<rparr>,
               outbound = [(w, relayPayload now req b us)]\<rparr>
      | WebhookResponse st text \<Rightarrow>
          Inr \<lparr>response = \<lparr>http_status = (if res_ok st then 200 else 502),
                 json_body = JObj [(lit ''message'',
                                     JStr (if res_ok st then lit ''forwarded'' else msgWebhookError)),
                                   (lit ''status'', JNum (Finite (real st))),
                                   (lit ''body'', safeJsonParse jsonParse text)]\<rparr>,
               outbound = [(w, relayPayload now req b us)]\<rparr>)"
  using assms by (simp add: POST_def Let_def split: WebhookOutcome.splits)

section \<open>Properties of validation\<close>

lemma includes_str_prefix: "includes_str (t @ b) t"
proof (cases "t @ b")
  case Nil
  then show ?thesis by simp
next
  case (Cons x xs)
  have "take (length t) (t @ b) = t" by simp
  with Cons show ?thesis by (simp del: take_append)
qed

lemma includes_str_append: "includes_str (a @ t @ b) t"
proof (induction a)
  case Nil
  show ?case using includes_str_prefix by simp
next
  case (Cons x a)
  then show ?case by simp
qed

lemma msgNoUrl_fatal: "includes_str msgNoUrl wordZero"
proof -
  have "msgNoUrl = (lit ''URL'' @ [0x304C]) @ wordZero @
      ([0x3002, 0x6700, 0x4F4E] @ lit ''1'' @ [0x4EF6, 0x5165, 0x308C, 0x308D, 0x3002])"
    by (simp add: msgNoUrl_def wordZero_def)
  then show ?thesis using includes_str_append by metis
qed

lemma msgInvalid_fatal: "includes_str (msgInvalid idx u) wordBroken"
proof -
  have "msgInvalid idx u = (lit ''('' @ showDec (idx + 1) @ lit '') URL'' @
      [0x5F62, 0x5F0F, 0x304C]) @ wordBroken @ (lit '': '' @ u)"
    by (simp add: msgInvalid_def wordBroken_def)
  then show ?thesis using includes_str_append by metis
qed

lemma validate_no_url:
  assumes "uniqueUrls rows = []"
  shows "msgNoUrl \<in> set (validate URL rows)"
  using assms by (simp add: validate_def)

lemma validate_invalid:
  assumes "u \<in> set (uniqueUrls rows)" and "\<not> isValidUrl URL u"
  shows "\<exists>idx. msgInvalid idx u \<in> set (validate URL rows)"
proof -
  from assms(1) obtain k where k: "k < length (uniqueUrls rows)" "uniqueUrls rows ! k = u"
    by (auto simp: in_set_conv_nth)
  then have "(k, u) \<in> set (enumerate 0 (uniqueUrls rows))"
    by (simp add: in_set_enumerate_eq)
  with assms(2) have "msgInvalid k u \<in> set (concat (map
      (\<lambda>(idx, u). if \<not> isValidUrl URL u then [msgInvalid idx u] else [])
      (enumerate 0 (uniqueUrls rows))))"
    by force
  then show ?thesis by (auto simp: validate_def)
qed

lemma fatal_nonempty:
  assumes "uniqueUrls rows = [] \<or> (\<exists>u \<in> set (uniqueUrls rows). \<not> isValidUrl URL u)"
  shows "filter (\<lambda>e. includes_str e wordBroken \<or> includes_str e wordZero)
           (validate URL rows) \<noteq> []"
proof -
  from assms have "\<exists>e \<in> set (validate URL rows).
      includes_str e wordBroken \<or> includes_str e wordZero"
  proof
    assume "uniqueUrls rows = []"
    then show ?thesis using validate_no_url msgNoUrl_fatal by blast
  next
    assume "\<exists>u \<in> set (uniqueUrls rows). \<not> isValidUrl URL u"
    then show ?thesis using validate_invalid msgInvalid_fatal by blast
  qed
  then show ?thesis by (simp add: filter_empty_conv)
qed

lemma msgDuplicates_not_fatal:
  "\<not> includes_str msgDuplicates wordBroken \<and> \<not> includes_str msgDuplicates wordZero"
  by (simp add: msgDuplicates_def wordBroken_def wordZero_def lit_def)

lemma validate_all_valid:
  assumes "uniqueUrls rows \<noteq> []" and "\<forall>u \<in> set (uniqueUrls rows). isValidUrl URL u"
  shows "validate URL rows = [] \<or> validate URL rows = [msgDuplicates]"
proof -
  have "\<forall>p \<in> set (enumerate 0 (uniqueUrls rows)). isValidUrl URL (snd p)"
    using assms(2) by (auto simp: in_set_enumerate_eq)
  then have "concat (map (\<lambda>(idx, u). if \<not> isValidUrl URL u then [msgInvalid idx u] else [])
      (enumerate 0 (uniqueUrls rows))) = []"
    by (auto simp: case_prod_unfold)
  with assms(1) show ?thesis by (simp add: validate_def)
qed

lemma fatal_empty:
  assumes "uniqueUrls rows \<noteq> []" and "\<forall>u \<in> set (uniqueUrls rows). isValidUrl URL u"
  shows "filter (\<lambda>e. includes_str e wordBroken \<or> includes_str e wordZero)
           (validate URL rows) = []"
  using validate_all_valid [OF assms] msgDuplicates_not_fatal by auto

section \<open>Properties of the lenient parser\<close>

lemma parseApi_returns:
  assumes "obj = asObject v"
    and "\<forall>xs. getProp obj (lit ''details'') = Some (JArr xs) \<longrightarrow> mapString numStr xs = Inr ss"
  shows "parseApi numStr toNumber v =
     (case getProp obj (lit ''details'') of
        Some (JArr (x # xs)) \<Rightarrow>
          Inr \<lparr>ok = None,
               ng = Some \<lparr>message = (case getProp obj (lit ''message'') of
                                        Some (JStr s) \<Rightarrow> s | _ \<Rightarrow> lit ''response''),
                          status = getNumber toNumber (getProp obj (lit ''status'')),
                          body = getProp obj (lit ''body''),
                          details = Some ss\<rparr>\<rparr>
      | _ \<Rightarrow>
          Inr \<lparr>ok = Some \<lparr>message = (case getProp obj (lit ''message'') of
                                        Some (JStr s) \<Rightarrow> s | _ \<Rightarrow> lit ''response''),
                          status = getNumber toNumber (getProp obj (lit ''status'')),
                          body = getProp obj (lit ''body'')\<rparr>,
               ng = None\<rparr>)"
proof -
  have msg: "(case getString m of Some s \<Rightarrow> s | None \<Rightarrow> lit ''response'') =
      (case m of Some (JStr s) \<Rightarrow> s | _ \<Rightarrow> lit ''response'')" for m
    by (cases m rule: getString.cases) simp_all
  show ?thesis
  proof (cases "\<exists>xs. getProp obj (lit ''details'') = Some (JArr xs)")
    case True
    then obtain xs where xs: "getProp obj (lit ''details'') = Some (JArr xs)" by blast
    with assms(2) have conv: "mapString numStr xs = Inr ss" by blast
    show ?thesis
    proof (cases xs)
      case Nil
      with conv have "ss = []" by simp
      with xs Nil conv show ?thesis
        unfolding parseApi_def Let_def msg assms(1) [symmetric] by simp
    next
      case (Cons y ys)
      with conv have "ss \<noteq> []" using mapString_Nil_iff [of numStr xs] by auto
      then obtain d ds where "ss = d # ds" by (cases ss) auto
      with xs Cons conv show ?thesis
        unfolding parseApi_def Let_def msg assms(1) [symmetric] by simp
    qed
  next
    case False
    then have none: "getStringArray numStr (getProp obj (lit ''details'')) = Inr None"
      by (cases "getProp obj (lit ''details'')" rule: getString.cases) auto
    from False have shape: "(case getProp obj (lit ''details'') of
        Some (JArr (x # xs)) \<Rightarrow> f | _ \<Rightarrow> g) = g" for f g :: 'r
      by (auto split: option.splits json.splits list.splits)
    show ?thesis
      unfolding parseApi_def Let_def msg assms(1) [symmetric] none shape by simp
  qed
qed

section \<open>Properties of the paste handler\<close>

lemma splitSep_no_separator:
  "\<not> testSeparator s \<Longrightarrow> splitSep cur s = [rev cur @ s]"
proof (induction s arbitrary: cur)
  case Nil
  show ?case by simp
next
  case (Cons c cs)
  from Cons.prems have c: "c \<noteq> 0x0A" "c \<noteq> 0x2C" "c \<noteq> 0x09" "c \<noteq> 0x20"
    and rest: "\<not> testSeparator cs"
    by (simp_all add: testSeparator_def)
  have "\<not> (cs \<noteq> [] \<and> hd cs = 0x0A)"
  proof
    assume "cs \<noteq> [] \<and> hd cs = 0x0A"
    then have "(0x0A :: jschar) \<in> set cs" by (metis hd_in_set)
    with rest show False by (auto simp: testSeparator_def list_ex_iff)
  qed
  with c Cons.IH [OF rest, of "c # cur"] show ?case by simp
qed

lemma pasteParts_no_separator:
  "\<not> testSeparator t \<Longrightarrow> length (pasteParts t) \<le> 1"
  by (simp add: pasteParts_def split_def splitSep_no_separator)

lemma pasteMany_many:
  assumes "2 \<le> length (pasteParts t)"
  shows "pasteMany uid t rows =
     (if rows = [] then [] else butlast rows @ [(last rows)\<lparr>url := hd (pasteParts t)\<rparr>]) @
     map (\<lambda>(k, v). \<lparr>id_row = uid k, url = v\<rparr>) (enumerate 0 (tl (pasteParts t)))"
proof (cases "pasteParts t")
  case Nil
  with assms show ?thesis by simp
next
  case (Cons first more)
  with assms obtain u rest where "more = u # rest" by (cases more) auto
  with Cons show ?thesis by (simp add: pasteMany_def)
qed

section \<open>Evaluations of the paste splitter\<close>

lemma pasteParts_trailing_newline:
  "pasteParts (lit ''a.com'' @ [0x0A]) = [lit ''a.com'']"
  by (simp add: pasteParts_def split_def trim_def isWhiteSpace_def lit_def)

lemma pasteParts_two:
  "pasteParts (lit ''a.com b.com'') = [lit ''a.com'', lit ''b.com'']"
  by (simp add: pasteParts_def split_def trim_def isWhiteSpace_def lit_def)

section \<open>Claims\<close>

subsection \<open>C1\<close>

text \<open>
  C1, as the claim states it, fails. The relay's own answer to a missing webhook
  setting has status 500 and a body holding only \<^verbatim>\<open>message\<close>. \<^verbatim>\<open>parseApi\<close> files
  a body without a non-empty \<^verbatim>\<open>details\<close> array under \<^verbatim>\<open>ok\<close>, and the failure
  branch of \<^verbatim>\<open>onSubmit\<close> reads \<^verbatim>\<open>ng\<close> only: the result shown has the generic
  failure text, no details and no data, and the relay's message is not in it.
\<close>

theorem C1_counterexample_message_dropped:
  "POST None (\<lambda>t. None) (\<lambda>n. lit ''1'') (lit ''2026-01-01T00:00:00.000Z'')
       (\<lambda>dest payload. WebhookThrows (lit ''fetch failed''))
       \<lparr>req_json = Some (JObj [(lit ''urls'', JArr [JStr (lit ''https://example.com'')])]),
        req_user_agent = None, req_forwarded_for = None\<rparr> =
     Inr \<lparr>response = \<lparr>http_status = 500,
                       json_body = JObj [(lit ''message'', JStr msgNoWebhook)]\<rparr>,
          outbound = []\<rparr> \<and>
   \<not> res_ok 500 \<and>
   result (onSubmit (\<lambda>u. Some ()) (\<lambda>n. lit ''1'') (\<lambda>s. None)
      (lit ''Cannot convert object to primitive value'')
      (lit ''2026-01-01T00:00:00.000Z'')
      (\<lambda>payload. FetchResponse False (Some (JObj [(lit ''message'', JStr msgNoWebhook)])))
      [\<lparr>id_row = lit ''r1'', url = lit ''example.com''\<rparr>]) =
     Some (ResultNg msgSendFailed (Some []) None) \<and>
   msgSendFailed \<noteq> msgNoWebhook"
proof -
  have parsed: "parseApi numStr toNumber (JObj [(lit ''message'', JStr msgNoWebhook)]) =
      Inr \<lparr>ok = Some \<lparr>message = msgNoWebhook, status = None, body = None\<rparr>, ng = None\<rparr>"
    for numStr toNumber
    by (simp add: parseApi_def lit_def)
  have uu: "uniqueUrls [\<lparr>id_row = lit ''r1'', url = lit ''example.com''\<rparr>] =
      [lit ''https://example.com'']"
    by (simp add: uniqueUrls_def urls_def normalizeUrl_def trim_def isWhiteSpace_def
        testScheme_def toUpperAscii_def arrayFromSet_def setAdd_def lit_def)
  have us: "urls [\<lparr>id_row = lit ''r1'', url = lit ''example.com''\<rparr>] =
      [lit ''https://example.com'']"
    by (simp add: urls_def normalizeUrl_def trim_def isWhiteSpace_def
        testScheme_def toUpperAscii_def lit_def)
  have "validate (\<lambda>u. Some ()) [\<lparr>id_row = lit ''r1'', url = lit ''example.com''\<rparr>] = []"
    by (simp add: validate_def uu us isValidUrl_def)
  moreover have "msgSendFailed \<noteq> msgNoWebhook"
    by (simp add: msgSendFailed_def msgNoWebhook_def lit_def)
  ultimately show ?thesis
    by (simp add: onSubmit_def parsed POST_def res_ok_def)
qed

text \<open>
  C1, amended. For every submission that passes validation and whose POST to the relay
  completes with an HTTP failure status, the client shows a failed result, provided
  \<^verbatim>\<open>String()\<close> returns for every element of the body's \<^verbatim>\<open>details\<close> when that is
  an array. If the response body (an empty object when it is no JSON) holds a
  non-empty \<^verbatim>\<open>details\<close> array, the result carries the relay's message (the
  \<^verbatim>\<open>message\<close> field when it is a string, \<open>response\<close> otherwise), the details turned
  into strings, and as data the parsed message, status, body and details. Otherwise
  the result carries the generic failure text, an empty list of details and no data.
\<close>

theorem C1_failed_result_by_details:
  assumes "uniqueUrls rows \<noteq> []" and "\<forall>u \<in> set (uniqueUrls rows). isValidUrl URL u"
    and "fetch \<lparr>sub_app = lit ''Next Asia Link'', sub_urls = uniqueUrls rows,
                 sub_created_at = now\<rparr> = FetchResponse False decoded"
    and "obj = asObject (case decoded of Some v \<Rightarrow> v | None \<Rightarrow> JObj [])"
    and "\<forall>xs. getProp obj (lit ''details'') = Some (JArr xs) \<longrightarrow> mapString numStr xs = Inr ss"
  shows "result (onSubmit URL numStr toNumber typeErrorMessage now fetch rows) =
     Some (case getProp obj (lit ''details'') of
             Some (JArr (x # xs)) \<Rightarrow>
               ResultNg
                 (case getProp obj (lit ''message'') of
                    Some (JStr s) \<Rightarrow> s | _ \<Rightarrow> lit ''response'')
                 (Some ss)
                 (Some \<lparr>message = (case getProp obj (lit ''message'') of
                                      Some (JStr s) \<Rightarrow> s | _ \<Rightarrow> lit ''response''),
                        status = getNumber toNumber (getProp obj (lit ''status'')),
                        body = getProp obj (lit ''body''),
                        details = Some ss\<rparr>)
           | _ \<Rightarrow> ResultNg msgSendFailed (Some []) None)"
proof -
  let ?raw = "case decoded of Some v \<Rightarrow> v | None \<Rightarrow> JObj []"
  note parsed = parseApi_returns [OF assms(4,5), of toNumber]
  have fatal: "filter (\<lambda>e. includes_str e wordBroken \<or> includes_str e wordZero)
      (validate URL rows) = []"
    by (rule fatal_empty [OF assms(1,2)])
  show ?thesis
  proof (cases "\<exists>x xs. getProp obj (lit ''details'') = Some (JArr (x # xs))")
    case True
    then obtain x xs where "getProp obj (lit ''details'') = Some (JArr (x # xs))" by blast
    then show ?thesis
      using fatal assms(3) parsed by (simp add: onSubmit_def Let_def)
  next
    case False
    then have shape: "(case getProp obj (lit ''details'') of
        Some (JArr (x # xs)) \<Rightarrow> f | _ \<Rightarrow> g) = g" for f g :: 'r
      by (auto split: option.splits json.splits list.splits)
    show ?thesis
      using fatal assms(3) parsed unfolding shape by (simp add: onSubmit_def Let_def)
  qed
qed

text \<open>
  The amended C1 on the relay's answer to a failed outbound call, which has details,
  and on its answer to an empty \<^verbatim>\<open>urls\<close>, which has none.
\<close>

theorem C1_failed_result_witness:
  "result (onSubmit (\<lambda>u. Some ()) (\<lambda>n. lit ''1'') (\<lambda>s. None)
      (lit ''Cannot convert object to primitive value'')
      (lit ''2026-01-01T00:00:00.000Z'')
      (\<lambda>payload. FetchResponse False
         (Some (JObj [(lit ''message'', JStr msgWebhookException),
                      (lit ''details'', JArr [JStr (lit ''fetch failed'')])])))
      [\<lparr>id_row = lit ''r1'', url = lit ''example.com''\<rparr>]) =
     Some (ResultNg msgWebhookException (Some [lit ''fetch failed''])
             (Some \<lparr>message = msgWebhookException, status = None, body = None,
                    details = Some [lit ''fetch failed'']\<rparr>)) \<and>
   result (onSubmit (\<lambda>u. Some ()) (\<lambda>n. lit ''1'') (\<lambda>s. None)
      (lit ''Cannot convert object to primitive value'')
      (lit ''2026-01-01T00:00:00.000Z'')
      (\<lambda>payload. FetchResponse False (Some (JObj [(lit ''message'', JStr msgUrlsEmpty)])))
      [\<lparr>id_row = lit ''r1'', url = lit ''example.com''\<rparr>]) =
     Some (ResultNg msgSendFailed (Some []) None)"
proof -
  let ?rows = "[\<lparr>id_row = lit ''r1'', url = lit ''example.com''\<rparr>]"
  have uu: "uniqueUrls ?rows = [lit ''https://example.com'']"
    by (simp add: uniqueUrls_def urls_def normalizeUrl_def trim_def isWhiteSpace_def
        testScheme_def toUpperAscii_def arrayFromSet_def setAdd_def lit_def)
  have nonempty: "uniqueUrls ?rows \<noteq> []" by (simp add: uu)
  have valid: "\<forall>u \<in> set (uniqueUrls ?rows). isValidUrl (\<lambda>u. Some ()) u"
    by (simp add: isValidUrl_def)
  have keys: "lit ''details'' \<noteq> lit ''message''" "lit ''status'' \<noteq> lit ''message''"
    "lit ''body'' \<noteq> lit ''message''" "lit ''status'' \<noteq> lit ''details''"
    "lit ''body'' \<noteq> lit ''details''"
    by (simp_all add: lit_def)
  have first: "result (onSubmit (\<lambda>u. Some ()) (\<lambda>n. lit ''1'') (\<lambda>s. None)
      (lit ''Cannot convert object to primitive value'')
      (lit ''2026-01-01T00:00:00.000Z'')
      (\<lambda>payload. FetchResponse False
         (Some (JObj [(lit ''message'', JStr msgWebhookException),
                      (lit ''details'', JArr [JStr (lit ''fetch failed'')])])))
      ?rows) =
     Some (ResultNg msgWebhookException (Some [lit ''fetch failed''])
             (Some \<lparr>message = msgWebhookException, status = None, body = None,
                    details = Some [lit ''fetch failed'']\<rparr>))"
    using C1_failed_result_by_details [OF nonempty valid, of
        "\<lambda>payload. FetchResponse False
           (Some (JObj [(lit ''message'', JStr msgWebhookException),
                        (lit ''details'', JArr [JStr (lit ''fetch failed'')])]))"
        "lit ''2026-01-01T00:00:00.000Z''"
        "Some (JObj [(lit ''message'', JStr msgWebhookException),
                     (lit ''details'', JArr [JStr (lit ''fetch failed'')])])"
        "JObj [(lit ''message'', JStr msgWebhookException),
               (lit ''details'', JArr [JStr (lit ''fetch failed'')])]"
        "\<lambda>n. lit ''1''" "[lit ''fetch failed'']" "\<lambda>s. None"
        "lit ''Cannot convert object to primitive value''"]
    by (simp add: keys)
  have second: "result (onSubmit (\<lambda>u. Some ()) (\<lambda>n. lit ''1'') (\<lambda>s. None)
      (lit ''Cannot convert object to primitive value'')
      (lit ''2026-01-01T00:00:00.000Z'')
      (\<lambda>payload. FetchResponse False (Some (JObj [(lit ''message'', JStr msgUrlsEmpty)])))
      ?rows) =
     Some (ResultNg msgSendFailed (Some []) None)"
    using C1_failed_result_by_details [OF nonempty valid, of
        "\<lambda>payload. FetchResponse False (Some (JObj [(lit ''message'', JStr msgUrlsEmpty)]))"
        "lit ''2026-01-01T00:00:00.000Z''"
        "Some (JObj [(lit ''message'', JStr msgUrlsEmpty)])"
        "JObj [(lit ''message'', JStr msgUrlsEmpty)]"
        "\<lambda>n. lit ''1''" "[]" "\<lambda>s. None"
        "lit ''Cannot convert object to primitive value''"]
    by (simp add: keys)
  from first second show ?thesis by (rule conjI)
qed

subsection \<open>C2\<close>

text \<open>
  C2, as the claim states it, fails twice. The handler calls \<^verbatim>\<open>preventDefault\<close> as
  soon as the text holds a separator, before \<^verbatim>\<open>pasteMany\<close> counts the tokens: the
  text \<open>a.com\<close> followed by a line feed has one token, yet its paste is suppressed, and
  no Row changes. And \<^verbatim>\<open>pasteMany\<close> is not told which Row is edited: pasting
  \<open>a.com b.com\<close> with two Rows present leaves the first Row as it is and overwrites
  the last one, whichever field received the paste.
\<close>

theorem C2_counterexample_paste:
  "length (pasteParts (lit ''a.com'' @ [0x0A])) \<le> 1 \<and>
   onPaste showDec (lit ''a.com'' @ [0x0A]) [\<lparr>id_row = lit ''r1'', url = []\<rparr>] =
     (True, [\<lparr>id_row = lit ''r1'', url = []\<rparr>]) \<and>
   onPaste showDec (lit ''a.com b.com'')
       [\<lparr>id_row = lit ''r1'', url = []\<rparr>, \<lparr>id_row = lit ''r2'', url = lit ''keep.com''\<rparr>] =
     (True, [\<lparr>id_row = lit ''r1'', url = []\<rparr>, \<lparr>id_row = lit ''r2'', url = lit ''a.com''\<rparr>,
             \<lparr>id_row = lit ''0'', url = lit ''b.com''\<rparr>])"
proof -
  have sep1: "testSeparator (lit ''a.com'' @ [0x0A])"
    by (simp add: testSeparator_def lit_def)
  have sep2: "testSeparator (lit ''a.com b.com'')"
    by (simp add: testSeparator_def lit_def)
  have id0: "lit ''0'' = [0x30]" by (simp add: lit_def)
  show ?thesis
    by (simp add: onPaste_def sep1 sep2 pasteMany_def pasteParts_trailing_newline
        pasteParts_two id0)
qed

text \<open>
  C2, amended. If the pasted text splits into more than one non-empty token, the
  default paste is intercepted, the first token is assigned to the last Entry of the
  list, and one new Entry is appended per remaining token, in token order. If the text
  holds no separator (no line feed, comma, tab or space), the default paste applies
  and no Entry changes. Nothing is stated about a text that holds a separator and has
  at most one token.
\<close>

theorem C2_paste_many_to_last_row:
  "(2 \<le> length (pasteParts t) \<longrightarrow>
      fst (onPaste uid t rows) = True \<and>
      (rows \<noteq> [] \<longrightarrow>
         snd (onPaste uid t rows) =
           butlast rows @ [(last rows)\<lparr>url := hd (pasteParts t)\<rparr>] @
           map (\<lambda>(k, v). \<lparr>id_row = uid k, url = v\<rparr>) (enumerate 0 (tl (pasteParts t))) \<and>
         map url (snd (onPaste uid t rows)) = map url (butlast rows) @ pasteParts t)) \<and>
   (\<not> testSeparator t \<longrightarrow> onPaste uid t rows = (False, rows))"
proof (intro conjI impI)
  assume many: "2 \<le> length (pasteParts t)"
  then have sep: "testSeparator t"
    using pasteParts_no_separator [of t] by auto
  then show "fst (onPaste uid t rows) = True" by (simp add: onPaste_def)
  assume rows: "rows \<noteq> []"
  show result: "snd (onPaste uid t rows) =
           butlast rows @ [(last rows)\<lparr>url := hd (pasteParts t)\<rparr>] @
           map (\<lambda>(k, v). \<lparr>id_row = uid k, url = v\<rparr>) (enumerate 0 (tl (pasteParts t)))"
    using sep rows by (simp add: onPaste_def pasteMany_many [OF many])
  have "map url (map (\<lambda>(k, v). \<lparr>id_row = uid k, url = v\<rparr>) (enumerate 0 (tl (pasteParts t))))
      = map snd (enumerate 0 (tl (pasteParts t)))"
    by (simp add: case_prod_unfold comp_def del: map_snd_enumerate)
  then have new: "map url (map (\<lambda>(k, v). \<lparr>id_row = uid k, url = v\<rparr>)
      (enumerate 0 (tl (pasteParts t)))) = tl (pasteParts t)"
    by (simp only: map_snd_enumerate)
  from many have "pasteParts t = hd (pasteParts t) # tl (pasteParts t)"
    by (cases "pasteParts t") simp_all
  then have "map url (butlast rows) @ pasteParts t =
      map url (butlast rows) @ [hd (pasteParts t)] @ tl (pasteParts t)"
    by (metis append_Cons append_Nil)
  then show "map url (snd (onPaste uid t rows)) = map url (butlast rows) @ pasteParts t"
    unfolding result map_append new by simp
next
  assume "\<not> testSeparator t"
  then show "onPaste uid t rows = (False, rows)" by (simp add: onPaste_def)
qed

text \<open>
  The amended C2 on a paste of three URLs into a single empty Row, and on a paste of
  one URL.
\<close>

theorem C2_paste_many_witness:
  "2 \<le> length (pasteParts (lit ''x.com, y.com z.com'')) \<and>
   onPaste showDec (lit ''x.com, y.com z.com'') [\<lparr>id_row = lit ''r1'', url = []\<rparr>] =
     (True, [\<lparr>id_row = lit ''r1'', url = lit ''x.com''\<rparr>,
             \<lparr>id_row = lit ''0'', url = lit ''y.com''\<rparr>,
             \<lparr>id_row = lit ''1'', url = lit ''z.com''\<rparr>]) \<and>
   \<not> testSeparator (lit ''a.com'') \<and>
   onPaste showDec (lit ''a.com'') [\<lparr>id_row = lit ''r1'', url = []\<rparr>] =
     (False, [\<lparr>id_row = lit ''r1'', url = []\<rparr>])"
proof -
  have many: "2 \<le> length (pasteParts (lit ''x.com, y.com z.com''))"
    by (simp add: pasteParts_three)
  have none: "\<not> testSeparator (lit ''a.com'')"
    by (simp add: testSeparator_def lit_def)
  have ids: "showDec 0 = lit ''0''" "showDec (Suc 0) = lit ''1''" by (simp_all add: lit_def)
  have enum: "enumerate 0 [lit ''y.com'', lit ''z.com''] = [(0, lit ''y.com''), (Suc 0, lit ''z.com'')]"
    by simp
  note inst = C2_paste_many_to_last_row [of "lit ''x.com, y.com z.com''" showDec
      "[\<lparr>id_row = lit ''r1'', url = []\<rparr>]"]
  from inst many
  have "fst (onPaste showDec (lit ''x.com, y.com z.com'') [\<lparr>id_row = lit ''r1'', url = []\<rparr>]) = True"
    by blast
  moreover from inst many
  have "snd (onPaste showDec (lit ''x.com, y.com z.com'') [\<lparr>id_row = lit ''r1'', url = []\<rparr>]) =
       butlast [\<lparr>id_row = lit ''r1'', url = []\<rparr>] @
       [(last [\<lparr>id_row = lit ''r1'', url = []\<rparr>])\<lparr>url := hd (pasteParts (lit ''x.com, y.com z.com''))\<rparr>] @
       map (\<lambda>(k, v). \<lparr>id_row = showDec k, url = v\<rparr>)
         (enumerate 0 (tl (pasteParts (lit ''x.com, y.com z.com''))))"
    by blast
  then have "snd (onPaste showDec (lit ''x.com, y.com z.com'') [\<lparr>id_row = lit ''r1'', url = []\<rparr>]) =
       [\<lparr>id_row = lit ''r1'', url = lit ''x.com''\<rparr>,
             \<lparr>id_row = lit ''0'', url = lit ''y.com''\<rparr>,
             \<lparr>id_row = lit ''1'', url = lit ''z.com''\<rparr>]"
    unfolding pasteParts_three list.sel enum by (simp add: ids del: showDec.simps)
  ultimately have first: "onPaste showDec (lit ''x.com, y.com z.com'') [\<lparr>id_row = lit ''r1'', url = []\<rparr>] =
     (True, [\<lparr>id_row = lit ''r1'', url = lit ''x.com''\<rparr>,
             \<lparr>id_row = lit ''0'', url = lit ''y.com''\<rparr>,
             \<lparr>id_row = lit ''1'', url = lit ''z.com''\<rparr>])"
    by (simp add: prod_eq_iff)
  from C2_paste_many_to_last_row [of "lit ''a.com''" showDec
      "[\<lparr>id_row = lit ''r1'', url = []\<rparr>]"] none
  have "onPaste showDec (lit ''a.com'') [\<lparr>id_row = lit ''r1'', url = []\<rparr>] =
     (False, [\<lparr>id_row = lit ''r1'', url = []\<rparr>])"
    by blast
  with many none first show ?thesis by (intro conjI)
qed

subsection \<open>C3\<close>

text \<open>
  C3. When the outbound call returns a response, its raw text is JSON-decoded, and on
  a decoding failure the raw text itself is the body value. A downstream status outside
  200 to 299 gives 502 with the generic failure message, the downstream status and the
  parsed body; a status inside gives 200 with the message \<open>forwarded\<close>, the downstream
  status and the parsed body.
\<close>

theorem C3_downstream_response_mapping:
  assumes "w \<noteq> []" and "req_json req = Some b"
    and "asStringArray numStr (getProp (asObject b) (lit ''urls'')) = Inr (Some us)"
    and "us \<noteq> []"
    and "fetch w (relayPayload now req b us) = WebhookResponse st text"
  shows "POST (Some w) jsonParse numStr now fetch req =
     Inr \<lparr>response =
            (if 200 \<le> st \<and> st \<le> 299 then
               \<lparr>http_status = 200,
                json_body = JObj [(lit ''message'', JStr (lit ''forwarded'')),
                                  (lit ''status'', JNum (Finite (real st))),
                                  (lit ''body'', case jsonParse text of
                                                   Some v \<Rightarrow> v | None \<Rightarrow> JStr text)]\<rparr>
             else
               \<lparr>http_status = 502,
                json_body = JObj [(lit ''message'', JStr msgWebhookError),
                                  (lit ''status'', JNum (Finite (real st))),
                                  (lit ''body'', case jsonParse text of
                                                   Some v \<Rightarrow> v | None \<Rightarrow> JStr text)]\<rparr>),
          outbound = [(w, relayPayload now req b us)]\<rparr>"
  using assms(5)
  by (simp add: POST_forwards [OF assms(1-4)] res_ok_def safeJsonParse_def)

text \<open>
  C3 on a downstream 503 with the body \<^verbatim>\<open>{"x":1}\<close>, and on a downstream 200 with the
  text \<open>ok\<close>, which is no JSON.
\<close>

theorem C3_downstream_response_witness:
  "map_sum id response (POST (Some (lit ''https://n8n.example/hook''))
      (\<lambda>t. if t = lit ''{'' @ [0x22] @ lit ''x'' @ [0x22] @ lit '':1}''
           then Some (JObj [(lit ''x'', JNum (Finite 1))]) else None)
      (\<lambda>n. lit ''1'') (lit ''2026-01-01T00:00:00.000Z'')
      (\<lambda>dest payload. WebhookResponse 503 (lit ''{'' @ [0x22] @ lit ''x'' @ [0x22] @ lit '':1}''))
      \<lparr>req_json = Some (JObj [(lit ''urls'', JArr [JStr (lit ''https://a.com'')])]),
       req_user_agent = None, req_forwarded_for = None\<rparr>) =
     Inr \<lparr>http_status = 502,
      json_body = JObj [(lit ''message'', JStr msgWebhookError),
                        (lit ''status'', JNum (Finite 503)),
                        (lit ''body'', JObj [(lit ''x'', JNum (Finite 1))])]\<rparr> \<and>
   map_sum id response (POST (Some (lit ''https://n8n.example/hook''))
      (\<lambda>t. if t = lit ''{'' @ [0x22] @ lit ''x'' @ [0x22] @ lit '':1}''
           then Some (JObj [(lit ''x'', JNum (Finite 1))]) else None)
      (\<lambda>n. lit ''1'') (lit ''2026-01-01T00:00:00.000Z'')
      (\<lambda>dest payload. WebhookResponse 200 (lit ''ok''))
      \<lparr>req_json = Some (JObj [(lit ''urls'', JArr [JStr (lit ''https://a.com'')])]),
       req_user_agent = None, req_forwarded_for = None\<rparr>) =
     Inr \<lparr>http_status = 200,
      json_body = JObj [(lit ''message'', JStr (lit ''forwarded'')),
                        (lit ''status'', JNum (Finite 200)),
                        (lit ''body'', JStr (lit ''ok''))]\<rparr>"
  using
    C3_downstream_response_mapping [of "lit ''https://n8n.example/hook''"
      "\<lparr>req_json = Some (JObj [(lit ''urls'', JArr [JStr (lit ''https://a.com'')])]),
        req_user_agent = None, req_forwarded_for = None\<rparr>"
      "JObj [(lit ''urls'', JArr [JStr (lit ''https://a.com'')])]" "\<lambda>n. lit ''1''"
      "[lit ''https://a.com'']"
      "\<lambda>dest payload. WebhookResponse 503 (lit ''{'' @ [0x22] @ lit ''x'' @ [0x22] @ lit '':1}'')"
      "lit ''2026-01-01T00:00:00.000Z''"
      503 "lit ''{'' @ [0x22] @ lit ''x'' @ [0x22] @ lit '':1}''"
      "\<lambda>t. if t = lit ''{'' @ [0x22] @ lit ''x'' @ [0x22] @ lit '':1}''
           then Some (JObj [(lit ''x'', JNum (Finite 1))]) else None"]
    C3_downstream_response_mapping [of "lit ''https://n8n.example/hook''"
      "\<lparr>req_json = Some (JObj [(lit ''urls'', JArr [JStr (lit ''https://a.com'')])]),
        req_user_agent = None, req_forwarded_for = None\<rparr>"
      "JObj [(lit ''urls'', JArr [JStr (lit ''https://a.com'')])]" "\<lambda>n. lit ''1''"
      "[lit ''https://a.com'']"
      "\<lambda>dest payload. WebhookResponse 200 (lit ''ok'')"
      "lit ''2026-01-01T00:00:00.000Z''"
      200 "lit ''ok''"
      "\<lambda>t. if t = lit ''{'' @ [0x22] @ lit ''x'' @ [0x22] @ lit '':1}''
           then Some (JObj [(lit ''x'', JNum (Finite 1))]) else None"]
  by (simp add: lit_def)

subsection \<open>C4\<close>

text \<open>
  C4. For every input string \<open>s\<close>, \<open>normalizeUrl\<close> is idempotent:
  normalising the normalised string gives the normalised string again.
\<close>

theorem C4_normalizeUrl_idempotent:
  "normalizeUrl (normalizeUrl s) = normalizeUrl s"
proof (cases "trim s = []")
  case True
  then show ?thesis by (simp add: normalizeUrl_def trim_Nil)
next
  case nonempty: False
  show ?thesis
  proof (cases "testScheme (trim s)")
    case True
    with nonempty show ?thesis
      by (simp add: normalizeUrl_def trim_trim)
  next
    case False
    have "trim (lit ''https://'' @ trim s) = lit ''https://'' @ trim s"
      using nonempty by (intro trim_https trim_last)
    with nonempty False show ?thesis
      by (simp add: normalizeUrl_def testScheme_https)
  qed
qed

subsection \<open>C5\<close>

text \<open>
  C5, as the claim states it, fails: \<^verbatim>\<open>removeRow\<close> guards on the length of the list
  only, so when \<^verbatim>\<open>uid()\<close> has returned the same identifier for both Rows of a
  two-Row list, removing that identifier empties the list.
\<close>

theorem C5_counterexample_duplicate_ids:
  "1 \<le> length (addRow (lit ''i'') (initialRows (lit ''i''))) \<and>
   \<not> 1 \<le> length (removeRow (lit ''i'') (addRow (lit ''i'') (initialRows (lit ''i'')))) \<and>
   removeRow (lit ''i'') (addRow (lit ''i'') (initialRows (lit ''i''))) = []"
  by (simp add: removeRow_def addRow_def initialRows_def)

text \<open>
  C5, amended. The initial state and the state after \<^verbatim>\<open>clearAll\<close> have exactly one
  Entry; \<^verbatim>\<open>addRow\<close>, \<^verbatim>\<open>setUrl\<close> and \<^verbatim>\<open>pasteMany\<close> keep the count at 1 or
  more; \<^verbatim>\<open>removeRow\<close> keeps the count at 1 or more on every state whose identifiers
  are pairwise distinct, and on a one-Entry state it is a no-op. The identifiers stay
  pairwise distinct under every operation as long as \<^verbatim>\<open>uid()\<close> returns identifiers
  that are new to the list and differ from each other.
\<close>

theorem C5_entry_count_with_distinct_ids:
  "length (initialRows i0) = 1 \<and> length (clearAll i0) = 1 \<and>
   (1 \<le> length p \<longrightarrow>
      1 \<le> length (addRow j p) \<and> 1 \<le> length (setUrl i u p) \<and>
      1 \<le> length (pasteMany uid t p)) \<and>
   (1 \<le> length p \<and> distinct (map id_row p) \<longrightarrow>
      1 \<le> length (removeRow i p) \<and> distinct (map id_row (removeRow i p))) \<and>
   (length q = 1 \<longrightarrow> removeRow i q = q) \<and>
   (distinct (map id_row p) \<longrightarrow> distinct (map id_row (setUrl i u p))) \<and>
   (distinct (map id_row p) \<and> j \<notin> set (map id_row p) \<longrightarrow>
      distinct (map id_row (addRow j p))) \<and>
   (distinct (map id_row p) \<and> distinct (map uid [0..<length (pasteParts t) - 1]) \<and>
    set (map uid [0..<length (pasteParts t) - 1]) \<inter> set (map id_row p) = {} \<longrightarrow>
      distinct (map id_row (pasteMany uid t p)))"
proof -
  have init: "length (initialRows i0) = 1 \<and> length (clearAll i0) = 1"
    by (simp add: initialRows_def clearAll_def)
  have grow: "1 \<le> length p \<longrightarrow>
      1 \<le> length (addRow j p) \<and> 1 \<le> length (setUrl i u p) \<and>
      1 \<le> length (pasteMany uid t p)"
  proof
    assume "1 \<le> length p"
    then have "p \<noteq> []" by auto
    then have "pasteMany uid t p \<noteq> []" by (rule pasteMany_nonempty)
    then have "1 \<le> length (pasteMany uid t p)"
      by (cases "pasteMany uid t p") simp_all
    moreover have "1 \<le> length (addRow j p)" by (simp add: addRow_def)
    moreover have "1 \<le> length (setUrl i u p)"
      using \<open>1 \<le> length p\<close> by (simp add: setUrl_def)
    ultimately show "1 \<le> length (addRow j p) \<and> 1 \<le> length (setUrl i u p) \<and>
      1 \<le> length (pasteMany uid t p)" by simp
  qed
  have remove: "1 \<le> length p \<and> distinct (map id_row p) \<longrightarrow>
      1 \<le> length (removeRow i p) \<and> distinct (map id_row (removeRow i p))"
  proof
    assume a: "1 \<le> length p \<and> distinct (map id_row p)"
    then have "p \<noteq> []" by auto
    with a have "removeRow i p \<noteq> []" by (intro removeRow_nonempty) simp_all
    then have "1 \<le> length (removeRow i p)" by (cases "removeRow i p") simp_all
    with a show "1 \<le> length (removeRow i p) \<and> distinct (map id_row (removeRow i p))"
      by (simp add: removeRow_distinct)
  qed
  have single: "length q = 1 \<longrightarrow> removeRow i q = q"
    by (simp add: removeRow_single)
  have ids_set: "distinct (map id_row p) \<longrightarrow> distinct (map id_row (setUrl i u p))"
    by (simp only: map_id_row_setUrl) simp
  have ids_add: "distinct (map id_row p) \<and> j \<notin> set (map id_row p) \<longrightarrow>
      distinct (map id_row (addRow j p))"
    by (simp add: addRow_def)
  have ids_paste: "distinct (map id_row p) \<and>
    distinct (map uid [0..<length (pasteParts t) - 1]) \<and>
    set (map uid [0..<length (pasteParts t) - 1]) \<inter> set (map id_row p) = {} \<longrightarrow>
      distinct (map id_row (pasteMany uid t p))"
    unfolding map_id_row_pasteMany distinct_append by blast
  from init grow remove single ids_set ids_add ids_paste show ?thesis
    by (intro conjI) (simp_all only:)
qed

text \<open>
  The amended C5 on a two-Row list with the identifiers \<open>a\<close> and \<open>b\<close>, a one-Row
  list, and a paste of three URLs whose two new Rows get the identifiers \<open>0\<close> and
  \<open>1\<close>.
\<close>

theorem C5_entry_count_witness:
  "1 \<le> length [\<lparr>id_row = lit ''a'', url = []\<rparr>, \<lparr>id_row = lit ''b'', url = []\<rparr>] \<and>
   distinct (map id_row [\<lparr>id_row = lit ''a'', url = []\<rparr>, \<lparr>id_row = lit ''b'', url = []\<rparr>]) \<and>
   lit ''c'' \<notin> set (map id_row [\<lparr>id_row = lit ''a'', url = []\<rparr>, \<lparr>id_row = lit ''b'', url = []\<rparr>]) \<and>
   length [\<lparr>id_row = lit ''a'', url = []\<rparr>] = 1 \<and>
   distinct (map showDec [0..<length (pasteParts (lit ''x.com, y.com z.com'')) - 1]) \<and>
   set (map showDec [0..<length (pasteParts (lit ''x.com, y.com z.com'')) - 1]) \<inter>
     set (map id_row [\<lparr>id_row = lit ''a'', url = []\<rparr>, \<lparr>id_row = lit ''b'', url = []\<rparr>]) = {} \<and>
   1 \<le> length (removeRow (lit ''a'')
          [\<lparr>id_row = lit ''a'', url = []\<rparr>, \<lparr>id_row = lit ''b'', url = []\<rparr>]) \<and>
   removeRow (lit ''a'') [\<lparr>id_row = lit ''a'', url = []\<rparr>] = [\<lparr>id_row = lit ''a'', url = []\<rparr>] \<and>
   1 \<le> length (pasteMany showDec (lit ''x.com, y.com z.com'')
          [\<lparr>id_row = lit ''a'', url = []\<rparr>, \<lparr>id_row = lit ''b'', url = []\<rparr>]) \<and>
   distinct (map id_row (pasteMany showDec (lit ''x.com, y.com z.com'')
          [\<lparr>id_row = lit ''a'', url = []\<rparr>, \<lparr>id_row = lit ''b'', url = []\<rparr>]))"
  using pasteParts_three
    C5_entry_count_with_distinct_ids [of "lit ''a''"
      "[\<lparr>id_row = lit ''a'', url = []\<rparr>, \<lparr>id_row = lit ''b'', url = []\<rparr>]"
      "lit ''c''" "lit ''a''" "lit ''x.com''" showDec "lit ''x.com, y.com z.com''"
      "[\<lparr>id_row = lit ''a'', url = []\<rparr>]"]
  by (simp add: lit_def upt_rec)

subsection \<open>C6\<close>

text \<open>
  C6. Whenever validation is fatal (there is no unique URL, or some unique URL does not
  parse as a URL), \<^verbatim>\<open>onSubmit\<close> sends no request and shows a rejected result whose
  details are all the validation messages; with no unique URL these contain the
  message that no URL was given.
\<close>

theorem C6_fatal_validation_blocks_submit:
  assumes "uniqueUrls rows = [] \<or> (\<exists>u \<in> set (uniqueUrls rows). \<not> isValidUrl URL u)"
  shows "onSubmit URL numStr toNumber typeErrorMessage now fetch rows =
           \<lparr>result = Some (ResultNg msgRejected (Some (validate URL rows)) None),
            requests = []\<rparr> \<and>
         (uniqueUrls rows = [] \<longrightarrow> msgNoUrl \<in> set (validate URL rows))"
  using fatal_nonempty [OF assms] validate_no_url [of rows URL]
  by (simp add: onSubmit_def Let_def)

text \<open>
  C6 on a single Row holding a blank, and on a single Row holding \<open>not a url\<close>, with a
  URL parser that rejects strings containing a space.
\<close>

theorem C6_fatal_validation_witness:
  "onSubmit (\<lambda>u. if list_ex (\<lambda>c. c = 0x20) u then None else Some ())
      (\<lambda>n. lit ''1'') (\<lambda>s. None) (lit ''Cannot convert object to primitive value'')
      (lit ''2026-01-01T00:00:00.000Z'')
      (\<lambda>payload. FetchThrows (lit ''unreachable''))
      [\<lparr>id_row = lit ''r1'', url = lit '' ''\<rparr>] =
     \<lparr>result = Some (ResultNg msgRejected (Some [msgNoUrl]) None), requests = []\<rparr> \<and>
   onSubmit (\<lambda>u. if list_ex (\<lambda>c. c = 0x20) u then None else Some ())
      (\<lambda>n. lit ''1'') (\<lambda>s. None) (lit ''Cannot convert object to primitive value'')
      (lit ''2026-01-01T00:00:00.000Z'')
      (\<lambda>payload. FetchThrows (lit ''unreachable''))
      [\<lparr>id_row = lit ''r1'', url = lit ''not a url''\<rparr>] =
     \<lparr>result = Some (ResultNg msgRejected
                       (Some [msgInvalid 0 (lit ''https://not a url'')]) None),
      requests = []\<rparr>"
proof -
  have empty: "uniqueUrls [\<lparr>id_row = lit ''r1'', url = lit '' ''\<rparr>] = []"
    by (simp add: uniqueUrls_def urls_def normalizeUrl_def trim_def isWhiteSpace_def
        arrayFromSet_def lit_def)
  have one: "uniqueUrls [\<lparr>id_row = lit ''r1'', url = lit ''not a url''\<rparr>] =
      [lit ''https://not a url'']"
    by (simp add: uniqueUrls_def urls_def normalizeUrl_def trim_def isWhiteSpace_def
        testScheme_def toUpperAscii_def arrayFromSet_def setAdd_def lit_def)
  have urls1: "urls [\<lparr>id_row = lit ''r1'', url = lit '' ''\<rparr>] = []"
    by (simp add: urls_def normalizeUrl_def trim_def isWhiteSpace_def lit_def)
  have urls2: "urls [\<lparr>id_row = lit ''r1'', url = lit ''not a url''\<rparr>] =
      [lit ''https://not a url'']"
    by (simp add: urls_def normalizeUrl_def trim_def isWhiteSpace_def
        testScheme_def toUpperAscii_def lit_def)
  have bad: "\<not> isValidUrl (\<lambda>u. if list_ex (\<lambda>c. c = 0x20) u then None else Some ())
      (lit ''https://not a url'')"
    by (simp add: isValidUrl_def lit_def)
  have v1: "validate (\<lambda>u. if list_ex (\<lambda>c. c = 0x20) u then None else Some ())
      [\<lparr>id_row = lit ''r1'', url = lit '' ''\<rparr>] = [msgNoUrl]"
    by (simp add: validate_def empty urls1)
  have v2: "validate (\<lambda>u. if list_ex (\<lambda>c. c = 0x20) u then None else Some ())
      [\<lparr>id_row = lit ''r1'', url = lit ''not a url''\<rparr>] =
      [msgInvalid 0 (lit ''https://not a url'')]"
    using bad by (simp add: validate_def one urls2)
  show ?thesis
    using
      C6_fatal_validation_blocks_submit [of "[\<lparr>id_row = lit ''r1'', url = lit '' ''\<rparr>]"
        "\<lambda>u. if list_ex (\<lambda>c. c = 0x20) u then None else Some ()"
        "\<lambda>n. lit ''1''" "\<lambda>s. None" "lit ''Cannot convert object to primitive value''"
        "lit ''2026-01-01T00:00:00.000Z''"
        "\<lambda>payload. FetchThrows (lit ''unreachable'')"]
      C6_fatal_validation_blocks_submit [of
        "[\<lparr>id_row = lit ''r1'', url = lit ''not a url''\<rparr>]"
        "\<lambda>u. if list_ex (\<lambda>c. c = 0x20) u then None else Some ()"
        "\<lambda>n. lit ''1''" "\<lambda>s. None" "lit ''Cannot convert object to primitive value''"
        "lit ''2026-01-01T00:00:00.000Z''"
        "\<lambda>payload. FetchThrows (lit ''unreachable'')"]
      bad
    by (simp add: empty one v1 v2)
qed

subsection \<open>C7\<close>

text \<open>
  C7. If no webhook destination is configured (the setting is unset or empty), the
  relay responds with HTTP 500 and an explanatory message and performs no outbound
  call, whatever the request is (also when its body is not JSON).
\<close>

theorem C7_missing_webhook_500:
  "POST None jsonParse numStr now fetch req =
     Inr \<lparr>response = \<lparr>http_status = 500,
                       json_body = JObj [(lit ''message'', JStr msgNoWebhook)]\<rparr>,
          outbound = []\<rparr> \<and>
   POST (Some []) jsonParse numStr now fetch req =
     Inr \<lparr>response = \<lparr>http_status = 500,
                       json_body = JObj [(lit ''message'', JStr msgNoWebhook)]\<rparr>,
          outbound = []\<rparr>"
  by (simp add: POST_def)

subsection \<open>C8\<close>

text \<open>
  C8. With the webhook configured, a request whose body decodes as JSON but has no
  non-empty array at \<^verbatim>\<open>urls\<close> (missing, not an array, or empty) is answered with
  HTTP 400 and an explanatory message, and no outbound call is made.
\<close>

theorem C8_urls_missing_400:
  assumes "w \<noteq> []" and "req_json req = Some b"
    and "\<not> (\<exists>kvs xs. b = JObj kvs \<and> map_of kvs (lit ''urls'') = Some (JArr xs) \<and> xs \<noteq> [])"
  shows "POST (Some w) jsonParse numStr now fetch req =
     Inr \<lparr>response = \<lparr>http_status = 400,
                       json_body = JObj [(lit ''message'', JStr msgUrlsEmpty)]\<rparr>,
          outbound = []\<rparr>"
  by (rule POST_urls_empty [OF assms(1,2) relay_urls_lacking [OF assms(3)]])

text \<open>C8 on the body \<^verbatim>\<open>{urls: []}\<close>.\<close>

theorem C8_urls_missing_witness:
  "POST (Some (lit ''https://n8n.example/hook'')) (\<lambda>t. None) (\<lambda>n. lit ''1'')
     (lit ''2026-01-01T00:00:00.000Z'')
     (\<lambda>dest payload. WebhookThrows (lit ''fetch failed''))
     \<lparr>req_json = Some (JObj [(lit ''urls'', JArr [])]),
      req_user_agent = None, req_forwarded_for = None\<rparr> =
     Inr \<lparr>response = \<lparr>http_status = 400,
                       json_body = JObj [(lit ''message'', JStr msgUrlsEmpty)]\<rparr>,
          outbound = []\<rparr>"
  using C8_urls_missing_400 [of "lit ''https://n8n.example/hook''"
      "\<lparr>req_json = Some (JObj [(lit ''urls'', JArr [])]),
        req_user_agent = None, req_forwarded_for = None\<rparr>"
      "JObj [(lit ''urls'', JArr [])]" "\<lambda>t. None" "\<lambda>n. lit ''1''"
      "lit ''2026-01-01T00:00:00.000Z''"
      "\<lambda>dest payload. WebhookThrows (lit ''fetch failed'')"]
  by (simp add: lit_def)

subsection \<open>C9\<close>

text \<open>
  C9. Deduplication of the normalised URL sequence removes duplicates by exact string
  equality, keeps the first occurrence and preserves the order: the sequence
  \<open>b, a, b, c, a\<close> gives \<open>b, a, c\<close>, and so do Rows holding these five texts (each
  normalised); in general every element of the input appears exactly once in the output, and the
  output lists the input's elements at the positions of their first occurrences, in
  the order of these positions.
\<close>

theorem C9_uniqueUrls_first_occurrence:
  "arrayFromSet [lit ''b'', lit ''a'', lit ''b'', lit ''c'', lit ''a''] =
     [lit ''b'', lit ''a'', lit ''c''] \<and>
   uniqueUrls (map (\<lambda>u. \<lparr>id_row = [], url = u\<rparr>)
       [lit ''b'', lit ''a'', lit ''b'', lit ''c'', lit ''a'']) =
     [lit ''https://b'', lit ''https://a'', lit ''https://c''] \<and>
   distinct (uniqueUrls rows) \<and>
   set (uniqueUrls rows) = set (urls rows) \<and>
   uniqueUrls rows =
     map (\<lambda>i. urls rows ! i)
       (filter (\<lambda>i. urls rows ! i \<notin> set (take i (urls rows))) [0..<length (urls rows)])"
proof -
  have "arrayFromSet [lit ''b'', lit ''a'', lit ''b'', lit ''c'', lit ''a''] =
     [lit ''b'', lit ''a'', lit ''c'']"
    by (simp add: arrayFromSet_def setAdd_def lit_def)
  moreover have "uniqueUrls (map (\<lambda>u. \<lparr>id_row = [], url = u\<rparr>)
       [lit ''b'', lit ''a'', lit ''b'', lit ''c'', lit ''a'']) =
     [lit ''https://b'', lit ''https://a'', lit ''https://c'']"
    by (simp add: uniqueUrls_def urls_def normalizeUrl_def trim_def isWhiteSpace_def
        testScheme_def toUpperAscii_def arrayFromSet_def setAdd_def lit_def)
  moreover have "distinct (uniqueUrls rows)"
    by (simp add: uniqueUrls_def distinct_arrayFromSet)
  moreover have "set (uniqueUrls rows) = set (urls rows)"
    by (simp add: uniqueUrls_def set_arrayFromSet)
  moreover have "uniqueUrls rows =
     map (\<lambda>i. urls rows ! i)
       (filter (\<lambda>i. urls rows ! i \<notin> set (take i (urls rows))) [0..<length (urls rows)])"
    unfolding uniqueUrls_def by (rule arrayFromSet_first_occurrences)
  ultimately show ?thesis by (intro conjI)
qed

subsection \<open>C10\<close>




end
